theory Spec2Isabelle
  imports Main "HOL-Library.Sublist"
begin

section \<open>Python values used by taxadd.py\<close>

text \<open>
  The exceptions the modelled code can raise. Console output (\<^verbatim>\<open>print\<close> without a
  file argument) is not modelled: no property below is about it.

  \<open>NotModelled\<close> is no exception of Python. It is the answer of the model of
  \<^verbatim>\<open>read_csv\<close> for a text outside the part of pandas that is modelled: pandas reads
  such a text too, and nothing is stated about what it reads.
\<close>

datatype py_error =
    UnboundLocalError
  | ValueError
  | TypeError
  | KeyError
  | FileNotFoundError
  | OSError
  | ParserError
  | EmptyDataError
  | TemplateError
  | NotModelled

text \<open>
  A cell of a pandas data frame as \<^verbatim>\<open>read_csv\<close> produces it: an integer, a string, or
  the missing value NaN. A data frame is the list of its rows.
\<close>

datatype cell = IntC int | StrC string | NaN

type_synonym dataframe = "cell list list"

definition digit_char :: "nat \<Rightarrow> char" where
  "digit_char d = ''0123456789'' ! d"

fun str_nat :: "nat \<Rightarrow> string" where
  "str_nat n = (if n < 10 then [digit_char n] else str_nat (n div 10) @ [digit_char (n mod 10)])"

declare str_nat.simps [simp del]

definition str_int :: "int \<Rightarrow> string" where
  "str_int i = (if i < 0 then CHR ''-'' # str_nat (nat (- i)) else str_nat (nat i))"

text \<open>\<^verbatim>\<open>str(x)\<close> of a cell.\<close>

fun py_str :: "cell \<Rightarrow> string" where
  "py_str (IntC i) = str_int i"
| "py_str (StrC s) = s"
| "py_str NaN = ''nan''"

text \<open>\<^verbatim>\<open>s.replace(old, new)\<close> for one-character \<^verbatim>\<open>old\<close> and \<^verbatim>\<open>new\<close>.\<close>

definition replace_char :: "char \<Rightarrow> char \<Rightarrow> string \<Rightarrow> string" where
  "replace_char old new s = map (\<lambda>c. if c = old then new else c) s"

text \<open>
  \<^verbatim>\<open>df[k]\<close>: the column labelled \<open>k\<close> of a frame read with \<^verbatim>\<open>header=None\<close>; KeyError
  when the frame has no such column.
\<close>

definition has_column :: "nat \<Rightarrow> dataframe \<Rightarrow> bool" where
  "has_column k df = list_all (\<lambda>row. k < length row) df"

definition column :: "nat \<Rightarrow> dataframe \<Rightarrow> py_error + cell list" where
  "column k df = (if has_column k df then Inr (map (\<lambda>row. row ! k) df) else Inl KeyError)"

section \<open>search\_taxon and getTaxidNames\<close>

text \<open>
  \<^verbatim>\<open>
  def search_taxon(taxname, names_df):
      taxon_row = names_df[names_df[1] == taxname]
      if taxon_row.empty:
          return None
      else:
          return str(taxon_row.iloc[0, 0])
  \<close>
  The rows are selected by comparing column 1 with the string; an integer or missing cell
  never equals a string. Nothing looks at column 3 (the name class).
\<close>

definition search_taxon :: "string \<Rightarrow> dataframe \<Rightarrow> py_error + string option" where
  "search_taxon taxname names_df =
     (if has_column 1 names_df then
        (case filter (\<lambda>row. row ! 1 = StrC taxname) names_df of
           [] \<Rightarrow> Inr None
         | taxon_row # _ \<Rightarrow> Inr (Some (py_str (taxon_row ! 0))))
      else Inl KeyError)"

text \<open>
  \<^verbatim>\<open>
  def getTaxidNames(taxname, mother_clade, names_df, nodes_df):
      taxname = taxname.replace("_", " ")
      taxid = search_taxon(taxname, names_df)
      if taxid == None:
          print(...)
          """ ... the TAXADD block, inside a string literal ... """
      return taxid, names_df, nodes_df
  \<close>
  The block that would look for the mother clade or the genus and call addTaxon is the
  text of a string literal (marked IN DEVELOPMENT in the source): it is never run.
\<close>

definition getTaxidNames ::
  "string \<Rightarrow> string option \<Rightarrow> dataframe \<Rightarrow> dataframe
     \<Rightarrow> py_error + (string option \<times> dataframe \<times> dataframe)" where
  "getTaxidNames taxname mother_clade names_df nodes_df =
     (let taxname' = replace_char (CHR ''_'') (CHR '' '') taxname in
      case search_taxon taxname' names_df of
        Inl e \<Rightarrow> Inl e
      | Inr taxid \<Rightarrow> Inr (taxid, names_df, nodes_df))"

text \<open>A row of the names table names \<open>n\<close>: its column 1 is the string \<open>n\<close>.\<close>

definition name_present :: "string \<Rightarrow> dataframe \<Rightarrow> bool" where
  "name_present n names_df = list_ex (\<lambda>row. row ! 1 = StrC n) names_df"

section \<open>addTaxon\<close>

text \<open>
  Python's \<^verbatim>\<open>>\<close> on two cells, as \<^verbatim>\<open>max\<close> uses it: integers by value, strings by
  code points, a comparison with NaN is false, a string against a number raises TypeError.
\<close>

fun str_gt :: "string \<Rightarrow> string \<Rightarrow> bool" where
  "str_gt [] ys = False"
| "str_gt (x # xs) [] = True"
| "str_gt (x # xs) (y # ys) =
     (if (of_char x :: nat) = of_char y then str_gt xs ys else (of_char y :: nat) < of_char x)"

fun cell_gt :: "cell \<Rightarrow> cell \<Rightarrow> py_error + bool" where
  "cell_gt (IntC a) (IntC b) = Inr (b < a)"
| "cell_gt (StrC a) (StrC b) = Inr (str_gt a b)"
| "cell_gt (StrC a) (IntC b) = Inl TypeError"
| "cell_gt (StrC a) NaN = Inl TypeError"
| "cell_gt (IntC a) (StrC b) = Inl TypeError"
| "cell_gt NaN (StrC b) = Inl TypeError"
| "cell_gt (IntC a) NaN = Inr False"
| "cell_gt NaN (IntC b) = Inr False"
| "cell_gt NaN NaN = Inr False"

fun max_from :: "cell \<Rightarrow> cell list \<Rightarrow> py_error + cell" where
  "max_from m [] = Inr m"
| "max_from m (x # xs) =
     (case cell_gt x m of
        Inl e \<Rightarrow> Inl e
      | Inr b \<Rightarrow> max_from (if b then x else m) xs)"

definition py_max :: "cell list \<Rightarrow> py_error + cell" where
  "py_max xs = (case xs of [] \<Rightarrow> Inl ValueError | x # rest \<Rightarrow> max_from x rest)"

text \<open>Reading a local variable: unbound (\<open>None\<close> here) raises UnboundLocalError.\<close>

definition read_local :: "'a option \<Rightarrow> py_error + 'a" where
  "read_local v = (case v of None \<Rightarrow> Inl UnboundLocalError | Some x \<Rightarrow> Inr x)"

definition count_char :: "char \<Rightarrow> string \<Rightarrow> nat" where
  "count_char c s = length (filter (\<lambda>x. x = c) s)"

definition rank_of :: "string \<Rightarrow> string" where
  "rank_of taxname =
     (if count_char (CHR '' '') taxname > 1 then ''subspecies''
      else if count_char (CHR '' '') taxname = 1 then ''species''
      else ''no rank'')"

definition cell_add :: "cell \<Rightarrow> int \<Rightarrow> py_error + cell" where
  "cell_add c k = (case c of IntC i \<Rightarrow> Inr (IntC (i + k)) | StrC s \<Rightarrow> Inl TypeError | NaN \<Rightarrow> Inr NaN)"

text \<open>
  \<^verbatim>\<open>
  def addTaxon(taxname, mother_clade_taxid, names_df, nodes_df):
      max_taxid = max(names_df[0])
      taxid = max_taxid + ( 10**(len(taxid)-1) )
      if taxname.count(" ")>1: rank = "subspecies"
      elif taxname.count(" ")==1: rank = "species"
      else: rank = "no rank"
      names_dbline = pd.DataFrame([ [taxid, taxname, "", "scientific name", "NaN"] ])
      nodes_dbline = pd.DataFrame([ [taxid, mother_clade_taxid, rank, "", "1", "1", "1", "1", "1" ,"1", "1", "1", "" ] ])
      names_df = names_df.append(names_dbline)
      nodes_df = nodes_df.append(nodes_dbline)
      return str(taxid), names_df, nodes_df
  \<close>
  \<^verbatim>\<open>taxid\<close> is assigned in the function, so it is a local variable, and the right-hand side
  of its first assignment reads it (\<^verbatim>\<open>len(taxid)\<close>) while it is still unbound. The model
  keeps the statements that follow, with the value of the local taken from \<open>read_local\<close>.
\<close>

definition addTaxon ::
  "string \<Rightarrow> string \<Rightarrow> dataframe \<Rightarrow> dataframe \<Rightarrow> py_error + (string \<times> dataframe \<times> dataframe)" where
  "addTaxon taxname mother_clade_taxid names_df nodes_df =
     (case column 0 names_df of
        Inl e \<Rightarrow> Inl e
      | Inr col0 \<Rightarrow>
     (case py_max col0 of
        Inl e \<Rightarrow> Inl e
      | Inr max_taxid \<Rightarrow>
     (case read_local (None :: string option) of
        Inl e \<Rightarrow> Inl e
      | Inr unbound_taxid \<Rightarrow>
     (case cell_add max_taxid (10 ^ (length unbound_taxid - 1)) of
        Inl e \<Rightarrow> Inl e
      | Inr taxid \<Rightarrow>
          (let rank = rank_of taxname;
               names_dbline = [taxid, StrC taxname, StrC '''', StrC ''scientific name'', StrC ''NaN''];
               nodes_dbline = [taxid, StrC mother_clade_taxid, StrC rank, StrC '''',
                               StrC ''1'', StrC ''1'', StrC ''1'', StrC ''1'',
                               StrC ''1'', StrC ''1'', StrC ''1'', StrC ''1'', StrC '''']
           in Inr (py_str taxid, names_df @ [names_dbline], nodes_df @ [nodes_dbline]))))))"

section \<open>editFasta\<close>

text \<open>
  The file system, as far as the code uses it: a path names the text that reading the file
  yields (for a path ending in \<^verbatim>\<open>.gz\<close>, read through \<^verbatim>\<open>gzip.open(..., "rt")\<close>, the
  decompressed text). Opening a missing file for reading raises FileNotFoundError; opening
  a file for writing creates or truncates it. Directories and permissions are not modelled.
\<close>

type_synonym filesystem = "string \<rightharpoonup> string"

definition NL :: char where
  "NL = CHR ''\<newline>''"

text \<open>\<^verbatim>\<open>os.path.basename\<close>: what follows the last slash.\<close>

definition basename :: "string \<Rightarrow> string" where
  "basename p = rev (takeWhile (\<lambda>c. c \<noteq> CHR ''/'') (rev p))"

definition endswith :: "string \<Rightarrow> string \<Rightarrow> bool" where
  "endswith s suf = suffix suf s"

text \<open>
  \<^verbatim>\<open>s.split(sep)\<close> for a non-empty separator: the pieces between the leftmost,
  non-overlapping occurrences of \<open>sep\<close>. An empty separator raises ValueError.
\<close>

function split_aux :: "string \<Rightarrow> string \<Rightarrow> string list" where
  "split_aux sep [] = [[]]"
| "split_aux sep (c # cs) =
     (if prefix sep (c # cs) then [] # split_aux sep (drop (length sep - 1) cs)
      else (let r = split_aux sep cs in (c # hd r) # tl r))"
  by pat_completeness auto
termination
  by (relation "measure (\<lambda>(sep, s). length s)") auto

definition py_split :: "string \<Rightarrow> string \<Rightarrow> py_error + string list" where
  "py_split sep s = (if sep = [] then Inl ValueError else Inr (split_aux sep s))"

text \<open>
  \<^verbatim>\<open>re.sub(r"(>.+)", repl, fasta_data)\<close>: the text is scanned from the left; at a
  \<^verbatim>\<open>>\<close> followed by at least one character other than a newline the match runs to
  the end of the line, is replaced, and the scan goes on after it; every other character
  is copied. \<open>repl\<close> maps the matched text to its replacement.
\<close>

function re_sub_header :: "(string \<Rightarrow> string) \<Rightarrow> string \<Rightarrow> string" where
  "re_sub_header repl [] = []"
| "re_sub_header repl (c # cs) =
     (if c = CHR ''>'' \<and> takeWhile (\<lambda>x. x \<noteq> NL) cs \<noteq> []
      then repl (c # takeWhile (\<lambda>x. x \<noteq> NL) cs) @ re_sub_header repl (dropWhile (\<lambda>x. x \<noteq> NL) cs)
      else c # re_sub_header repl cs)"
  by pat_completeness auto
termination
  by (relation "measure (\<lambda>(repl, s). length s)") (auto simp: length_dropWhile_le less_Suc_eq_le)

text \<open>
  The replacement template is \<^verbatim>\<open>r"\1|kraken:taxid|{0}|{1}".format(taxid, taxname)\<close>:
  group 1 (the whole match) followed by the tail \<^verbatim>\<open>|kraken:taxid|<taxid>|<taxname>\<close>.
  \<^verbatim>\<open>re\<close> parses the template before it searches. A tail without a backslash is literal
  text. A backslash in the taxid or the taxon name starts an escape or a group reference
  that \<^verbatim>\<open>re\<close> interprets or rejects; what it makes of such a tail is the parameter
  \<open>parse_escapes\<close> (an error, or a function from the match to the text that replaces the
  tail).
\<close>

definition kraken_template ::
  "(string \<Rightarrow> py_error + (string \<Rightarrow> string)) \<Rightarrow> string \<Rightarrow> string
     \<Rightarrow> py_error + (string \<Rightarrow> string)" where
  "kraken_template parse_escapes taxid taxname =
     (let tail = ''|kraken:taxid|'' @ taxid @ ''|'' @ taxname in
      if CHR 0x5C \<in> set tail
      then (case parse_escapes tail of Inl e \<Rightarrow> Inl e | Inr f \<Rightarrow> Inr (\<lambda>m. m @ f m))
      else Inr (\<lambda>m. m @ tail))"

text \<open>
  \<^verbatim>\<open>
  def editFasta(infasta, outdir, taxid, taxname):
      if infasta.endswith(".gz"):
          file = gzip.open(infasta, "rt")
          fasta_file = f"{outdir}/{taxid}_{path.basename(infasta).split('.gz')[0]}"
      else:
          file = open(infasta, "r")
          fasta_file = f"{outdir}/{taxid}_{path.basename(infasta)}"
      fasta_data = file.read()
      fasta_edit = re.sub(r"(>.+)", r"\1|kraken:taxid|{0}|{1}".format(taxid, taxname), fasta_data)
      fasta_file_fin = open(fasta_file, "w")
      fasta_file_fin.write(fasta_edit)
      file.close()
      return 0
  \<close>
\<close>

definition editFasta ::
  "(string \<Rightarrow> py_error + (string \<Rightarrow> string)) \<Rightarrow> filesystem \<Rightarrow> string \<Rightarrow> string \<Rightarrow> string \<Rightarrow> string
     \<Rightarrow> py_error + (int \<times> filesystem)" where
  "editFasta parse_escapes disk infasta outdir taxid taxname =
     (case disk infasta of
        None \<Rightarrow> Inl FileNotFoundError
      | Some fasta_data \<Rightarrow>
          (let fasta_file =
                 (if endswith infasta ''.gz''
                  then outdir @ ''/'' @ taxid @ ''_'' @ hd (split_aux ''.gz'' (basename infasta))
                  else outdir @ ''/'' @ taxid @ ''_'' @ basename infasta)
           in case kraken_template parse_escapes taxid taxname of
                Inl e \<Rightarrow> Inl e
              | Inr repl \<Rightarrow> Inr (0, disk(fasta_file \<mapsto> re_sub_header repl fasta_data))))"

subsection \<open>Lines, and the vocabulary of the claims about editFasta\<close>

text \<open>The lines of a text are what its newlines separate; joining them gives the text back.\<close>

fun split_lines :: "string \<Rightarrow> string list" where
  "split_lines [] = [[]]"
| "split_lines (c # cs) =
     (if c = NL then [] # split_lines cs
      else (let r = split_lines cs in (c # hd r) # tl r))"

fun join_lines :: "string list \<Rightarrow> string" where
  "join_lines [] = []"
| "join_lines [l] = l"
| "join_lines (l # ls) = l @ NL # join_lines ls"

text \<open>
  What the substitution does to one line: from the first \<^verbatim>\<open>>\<close> of the line on, if
  at least one character follows it, the rest of the line is replaced.
\<close>

definition rewrite_line :: "(string \<Rightarrow> string) \<Rightarrow> string \<Rightarrow> string" where
  "rewrite_line repl l =
     (if 2 \<le> length (dropWhile (\<lambda>c. c \<noteq> CHR ''>'') l)
      then takeWhile (\<lambda>c. c \<noteq> CHR ''>'') l @ repl (dropWhile (\<lambda>c. c \<noteq> CHR ''>'') l)
      else l)"

text \<open>The literal suffix, and the lines that hold a \<^verbatim>\<open>>\<close> with text after it.\<close>

definition kraken_suffix :: "string \<Rightarrow> string \<Rightarrow> string" where
  "kraken_suffix taxid taxname = ''|kraken:taxid|'' @ taxid @ ''|'' @ taxname"

definition has_header_text :: "string \<Rightarrow> bool" where
  "has_header_text l = (2 \<le> length (dropWhile (\<lambda>c. c \<noteq> CHR ''>'') l))"

text \<open>The name of the file editFasta writes.\<close>

definition fasta_file_name :: "string \<Rightarrow> string \<Rightarrow> string \<Rightarrow> string" where
  "fasta_file_name infasta outdir taxid =
     outdir @ ''/'' @ taxid @ ''_'' @
       (if endswith infasta ''.gz'' then hd (split_aux ''.gz'' (basename infasta))
        else basename infasta)"

text \<open>\<open>sep\<close> occurs in \<open>b @ sep\<close> at the end only.\<close>

fun no_early :: "string \<Rightarrow> string \<Rightarrow> bool" where
  "no_early sep [] = True"
| "no_early sep (c # cs) = (\<not> prefix sep (c # cs @ sep) \<and> no_early sep cs)"

text \<open>Example inputs: a template parser that rejects every escape, and two disks.\<close>

definition fail_escapes :: "string \<Rightarrow> py_error + (string \<Rightarrow> string)" where
  "fail_escapes t = Inl TemplateError"

definition disk_bare :: filesystem where
  "disk_bare = Map.empty(''in/x.fa'' \<mapsto> ''>\<newline>ACGT\<newline>'')"

definition disk_gz :: filesystem where
  "disk_gz = Map.empty(''db/Homo_sapiens/x.fa.gz'' \<mapsto> ''>seq1 description\<newline>ACGT\<newline>'',
                       ''db/Homo_sapiens/y.fa'' \<mapsto> ''>seq2\<newline>TTGA\<newline>'',
                       ''db/Homo_sapiens/a.gz.b.gz'' \<mapsto> ''>seq3\<newline>CCCC\<newline>'')"

section \<open>Dump files: readDmp and writeDmp\<close>

definition TAB :: char where
  "TAB = CHR 0x09"

text \<open>\<^verbatim>\<open>sep.join(xs)\<close>.\<close>

fun py_join :: "string \<Rightarrow> string list \<Rightarrow> string" where
  "py_join sep [] = []"
| "py_join sep [x] = x"
| "py_join sep (x # xs) = x @ sep @ py_join sep xs"

text \<open>
  Whitespace. \<^verbatim>\<open>str.strip()\<close> removes, among the ASCII characters, the tab, the line
  feed, VT, FF, the carriage return, FS, GS, RS, US and the space from both ends. The
  tokenizer of \<^verbatim>\<open>read_csv\<close> skips the C locale's whitespace (the space and the characters
  9 to 13) around a number, and skips a line of spaces and tabs. Texts are taken as ASCII:
  the Unicode spaces beyond it, which \<^verbatim>\<open>strip\<close> removes too, are not modelled.
\<close>

definition is_space :: "char \<Rightarrow> bool" where
  "is_space c = (c \<in> set [CHR 0x09, CHR 0x0A, CHR 0x0B, CHR 0x0C, CHR 0x0D,
                            CHR 0x1C, CHR 0x1D, CHR 0x1E, CHR 0x1F, CHR 0x20])"

definition is_cspace :: "char \<Rightarrow> bool" where
  "is_cspace c = (c \<in> set [CHR 0x09, CHR 0x0A, CHR 0x0B, CHR 0x0C, CHR 0x0D, CHR 0x20])"

definition strip :: "string \<Rightarrow> string" where
  "strip s = rev (dropWhile is_space (rev (dropWhile is_space s)))"

definition cstrip :: "string \<Rightarrow> string" where
  "cstrip s = rev (dropWhile is_cspace (rev (dropWhile is_cspace s)))"

definition is_digit :: "char \<Rightarrow> bool" where
  "is_digit c = (c \<in> set ''0123456789'')"

definition digit_val :: "char \<Rightarrow> nat" where
  "digit_val c = of_char c - 48"

definition nat_of_digits :: "string \<Rightarrow> nat" where
  "nat_of_digits ds = foldl (\<lambda>n c. 10 * n + digit_val c) 0 ds"

text \<open>
  A field that \<^verbatim>\<open>read_csv\<close> reads as a 64-bit integer: optional whitespace, an optional
  sign, one digit or more, optional whitespace, and a value in the range of int64.
\<close>

definition int_literal :: "string \<Rightarrow> int option" where
  "int_literal f =
     (let s = cstrip f;
          neg = (s \<noteq> [] \<and> hd s = CHR ''-'');
          ds = (if s \<noteq> [] \<and> (hd s = CHR ''-'' \<or> hd s = CHR ''+'') then tl s else s);
          v = (if neg then - int (nat_of_digits ds) else int (nat_of_digits ds))
      in if ds \<noteq> [] \<and> list_all is_digit ds \<and> - (2 ^ 63) \<le> v \<and> v < 2 ^ 63
         then Some v else None)"

text \<open>
  What \<^verbatim>\<open>read_csv\<close> takes for text. A character of a number is a digit, a sign, a
  point or an exponent mark; a text character is neither whitespace nor a character of a
  number. A field is clearly text when it is blank or holds a text character, and is not,
  with the whitespace around it removed, one of inf, infinity and nan in any case and
  with or without a sign: no such field is read as an integer or as a float.
\<close>

definition text_char :: "char \<Rightarrow> bool" where
  "text_char c = (\<not> is_space c \<and> c \<notin> set ''0123456789+-.eE'')"

definition ci_eq :: "string \<Rightarrow> string \<Rightarrow> string \<Rightarrow> bool" where
  "ci_eq s lo up = list_all2 (\<lambda>c (a, b). c = a \<or> c = b) s (zip lo up)"

definition unsigned :: "string \<Rightarrow> string" where
  "unsigned s = (if s \<noteq> [] \<and> (hd s = CHR ''-'' \<or> hd s = CHR ''+'') then tl s else s)"

definition special :: "string \<Rightarrow> bool" where
  "special s = (ci_eq (unsigned s) ''inf'' ''INF'' \<or> ci_eq (unsigned s) ''infinity'' ''INFINITY''
                \<or> ci_eq (unsigned s) ''nan'' ''NAN'')"

definition clearly_text :: "string \<Rightarrow> bool" where
  "clearly_text f = ((list_all is_space f \<or> list_ex text_char f) \<and> \<not> special (strip f))"

text \<open>
  The fields that \<^verbatim>\<open>read_csv\<close> does not keep as strings although they are clearly
  text: its default missing-value tokens (the empty field apart) and its Boolean tokens.
\<close>

definition reserved :: "string \<Rightarrow> bool" where
  "reserved f = (f \<in> set [''#N/A'', ''#N/A N/A'', ''#NA'', ''-1.#IND'', ''-1.#QNAN'', ''-NaN'', ''-nan'',
                           ''1.#IND'', ''1.#QNAN'', ''<NA>'', ''N/A'', ''NA'', ''NULL'', ''NaN'', ''None'',
                           ''n/a'', ''nan'', ''null'',
                           ''True'', ''TRUE'', ''true'', ''False'', ''FALSE'', ''false''])"

text \<open>
  \<^verbatim>\<open>pd.read_csv(dmp_file, header=None, sep="|")\<close> on the text of the file.

  The model covers the texts of printable ASCII characters, tabs and line feeds in which
  no line with a field begins with a space or a tab, no field begins with a double quote,
  and every column is either all integers or all text fields; a text field is empty, or
  clearly text and not reserved. There, lines of spaces and tabs are skipped, and a text
  with no other line raises EmptyDataError; the first line gives the number of columns; a
  later line with more fields raises ParserError, one with fewer is filled with empty
  fields; a column all of whose fields are integers is an integer column, and in a column
  of text fields an empty field is the missing value NaN and any other field is the
  string as it stands.

  For every other text the model answers \<open>NotModelled\<close>. Such texts are read by pandas in
  ways that are not modelled: a field is cut at a NUL character, a carriage return ends a
  line, a quoted field runs to its closing quote, a column of numbers with a point, an
  exponent or a missing value is a column of floats, a column of integers beyond int64 is
  unsigned or a column of floats, a column of Boolean tokens is Boolean, a missing-value
  token is NaN, and a column that is numeric in one part of a long file and text in
  another holds values of both kinds.
\<close>

definition plain_char :: "char \<Rightarrow> bool" where
  "plain_char c = (c = TAB \<or> (32 \<le> (of_char c :: nat) \<and> (of_char c :: nat) < 127))"

definition plain_text :: "string \<Rightarrow> bool" where
  "plain_text txt = list_all (\<lambda>c. c = NL \<or> plain_char c) txt"

definition quoted :: "string \<Rightarrow> bool" where
  "quoted f = (f \<noteq> [] \<and> hd f = CHR 0x22)"

definition blank_line :: "string \<Rightarrow> bool" where
  "blank_line l = list_all (\<lambda>c. c = CHR '' '' \<or> c = TAB) l"

definition pad_row :: "nat \<Rightarrow> string list \<Rightarrow> string list" where
  "pad_row n r = r @ replicate (n - length r) []"

definition col_is_int :: "string list list \<Rightarrow> nat \<Rightarrow> bool" where
  "col_is_int raw k = list_all (\<lambda>r. int_literal (r ! k) \<noteq> None) raw"

definition text_field :: "string \<Rightarrow> bool" where
  "text_field f = (f = [] \<or> (clearly_text f \<and> \<not> reserved f))"

definition col_is_text :: "string list list \<Rightarrow> nat \<Rightarrow> bool" where
  "col_is_text raw k = list_all (\<lambda>r. text_field (r ! k)) raw"

definition raw_cell :: "string list list \<Rightarrow> nat \<Rightarrow> string \<Rightarrow> cell" where
  "raw_cell raw k f =
     (if col_is_int raw k then IntC (the (int_literal f))
      else if f = [] then NaN else StrC f)"

definition read_csv :: "string \<Rightarrow> py_error + dataframe" where
  "read_csv txt =
     (let ls = filter (\<lambda>l. \<not> blank_line l) (split_lines txt) in
      if \<not> plain_text txt \<or> list_ex (\<lambda>l. hd l = CHR '' '' \<or> hd l = TAB) ls
         \<or> list_ex (\<lambda>l. list_ex quoted (split_aux ''|'' l)) ls
      then Inl NotModelled
      else if ls = [] then Inl EmptyDataError
      else
        (let fields = map (split_aux ''|'') ls;
             n = length (hd fields)
         in if list_ex (\<lambda>r. n < length r) fields then Inl ParserError
            else
              (let raw = map (pad_row n) fields
               in if \<not> list_all (\<lambda>k. col_is_int raw k \<or> col_is_text raw k) [0..<n]
                  then Inl NotModelled
                  else Inr (map (\<lambda>r. map (\<lambda>k. raw_cell raw k (r ! k)) [0..<n]) raw))))"

text \<open>
  \<^verbatim>\<open>
  def readDmp(dmp_file):
      dmp_df = pd.read_csv(dmp_file, header=None, sep="|")
      dmp_df = dmp_df.apply(lambda x: x.str.strip() if x.dtype == "object" else x)
      return dmp_df
  \<close>
  The strings of the object columns are stripped; integers and missing values stay.
\<close>

fun strip_cell :: "cell \<Rightarrow> cell" where
  "strip_cell (StrC s) = StrC (strip s)"
| "strip_cell (IntC i) = IntC i"
| "strip_cell NaN = NaN"

definition parse_dmp :: "string \<Rightarrow> py_error + dataframe" where
  "parse_dmp txt = (case read_csv txt of Inl e \<Rightarrow> Inl e | Inr df \<Rightarrow> Inr (map (map strip_cell) df))"

definition readDmp :: "filesystem \<Rightarrow> string \<Rightarrow> py_error + dataframe" where
  "readDmp disk dmp_file =
     (case disk dmp_file of None \<Rightarrow> Inl FileNotFoundError | Some txt \<Rightarrow> parse_dmp txt)"

text \<open>
  The steps on the file system that the end of the run is made of: a rename
  (\<^verbatim>\<open>os.rename\<close>), the opening of a file for writing (\<^verbatim>\<open>open(path, 'w')\<close>) and a line
  printed to the open file.

  In the model of the run the disk is a map from paths to contents, and every path is taken
  as the one name of a file of its own: a rename replaces the destination, a missing
  source raises, a rename of a path to itself does nothing, and a file opened for writing
  is created or truncated. This is what the steps do on a disk where the paths the run
  uses are spelled in one way each and no file has a second name (no symbolic link, no
  hard link). What they do when two paths name one file is modelled in the next
  subsection.
\<close>

datatype fs_op = Rename string string | OpenW string | PrintLine string string

fun exec_op :: "fs_op \<Rightarrow> filesystem \<Rightarrow> py_error + filesystem" where
  "exec_op (Rename src dst) disk =
     (case disk src of
        None \<Rightarrow> Inl FileNotFoundError
      | Some c \<Rightarrow> Inr (if src = dst then disk else (disk(src := None))(dst \<mapsto> c)))"
| "exec_op (OpenW p) disk = Inr (disk(p \<mapsto> []))"
| "exec_op (PrintLine p l) disk =
     Inr (disk(p \<mapsto> (case disk p of None \<Rightarrow> [] | Some c \<Rightarrow> c) @ l @ [NL]))"

fun run_ops :: "fs_op list \<Rightarrow> filesystem \<Rightarrow> py_error + filesystem" where
  "run_ops [] disk = Inr disk"
| "run_ops (x # xs) disk =
     (case exec_op x disk of Inl e \<Rightarrow> Inl e | Inr disk' \<Rightarrow> run_ops xs disk')"

subsection \<open>Paths that name the same file\<close>

text \<open>
  The file system with its names. A directory entry is what a path names once the
  directories of the path are resolved; the resolution \<open>ent\<close> is a parameter (two
  spellings of one path, such as \<^verbatim>\<open>tax/names.dmp\<close> and \<^verbatim>\<open>tax/./names.dmp\<close>, and
  paths through a linked directory have the same entry; the steps leave the directories
  as they are). An entry holds a file, known by its number (two entries with the same
  number are hard links of one file), or a symbolic link to another entry. The contents
  belong to the numbers. \<open>px_next\<close> is the number of the next file to be created, and
  \<open>px_cur\<close> the file that is open for writing.

  \<^verbatim>\<open>os.rename(src, dst)\<close> raises FileNotFoundError when \<open>src\<close> names no entry; it does
  nothing when \<open>src\<close> and \<open>dst\<close> name one entry or two hard links of one file; otherwise
  it moves what the entry of \<open>src\<close> holds (the link itself when it is a symbolic link) to
  the entry of \<open>dst\<close>, whose previous holding is gone. \<^verbatim>\<open>open(path, 'w')\<close> follows
  symbolic links, \<open>max_links\<close> of them at most (OSError beyond), truncates the file it
  reaches, or creates a file at the entry it reaches when there is none. \<^verbatim>\<open>print\<close>
  appends the line to the open file, whatever its names are by then.

  Directories as the source or the destination of a rename, permissions and a missing
  directory are not modelled.
\<close>

datatype 'e node = File nat | Symlink 'e

record 'e posix =
  px_ents :: "'e \<Rightarrow> 'e node option"
  px_data :: "nat \<Rightarrow> string option"
  px_next :: nat
  px_cur :: "nat option"

definition max_links :: nat where
  "max_links = 40"

fun follow :: "nat \<Rightarrow> ('e \<Rightarrow> 'e node option) \<Rightarrow> 'e \<Rightarrow> py_error + 'e" where
  "follow 0 m e = Inl OSError"
| "follow (Suc k) m e = (case m e of Some (Symlink t) \<Rightarrow> follow k m t | _ \<Rightarrow> Inr e)"

fun is_file :: "'e node \<Rightarrow> bool" where
  "is_file (File i) = True"
| "is_file (Symlink t) = False"

fun px_exec :: "(string \<Rightarrow> 'e) \<Rightarrow> fs_op \<Rightarrow> 'e posix \<Rightarrow> py_error + 'e posix" where
  "px_exec ent (Rename src dst) st =
     (case px_ents st (ent src) of
        None \<Rightarrow> Inl FileNotFoundError
      | Some n \<Rightarrow>
          Inr (if ent src = ent dst \<or> (is_file n \<and> px_ents st (ent dst) = Some n) then st
               else st\<lparr>px_ents := (px_ents st)(ent src := None, ent dst \<mapsto> n)\<rparr>))"
| "px_exec ent (OpenW p) st =
     (case follow (Suc max_links) (px_ents st) (ent p) of
        Inl e \<Rightarrow> Inl e
      | Inr e \<Rightarrow>
          (case px_ents st e of
             Some (File i) \<Rightarrow> Inr (st\<lparr>px_data := (px_data st)(i \<mapsto> []), px_cur := Some i\<rparr>)
           | _ \<Rightarrow> Inr (st\<lparr>px_ents := (px_ents st)(e \<mapsto> File (px_next st)),
                          px_data := (px_data st)(px_next st \<mapsto> []),
                          px_next := Suc (px_next st),
                          px_cur := Some (px_next st)\<rparr>)))"
| "px_exec ent (PrintLine p l) st =
     (case px_cur st of
        None \<Rightarrow> Inl ValueError
      | Some i \<Rightarrow>
          Inr (st\<lparr>px_data := (px_data st)(i \<mapsto> (case px_data st i of None \<Rightarrow> [] | Some c \<Rightarrow> c) @ l @ [NL])\<rparr>))"

text \<open>Every state a sequence of steps goes through, the first one included.\<close>

fun px_trace :: "(string \<Rightarrow> 'e) \<Rightarrow> fs_op list \<Rightarrow> 'e posix \<Rightarrow> 'e posix list" where
  "px_trace ent [] st = [st]"
| "px_trace ent (x # xs) st =
     (case px_exec ent x st of Inl e \<Rightarrow> [st] | Inr st' \<Rightarrow> st # px_trace ent xs st')"

text \<open>
  \<^verbatim>\<open>
  def writeDmp(names_df, nodes_df, outdir):
      with open(f"{outdir}/names.dmp", 'w') as fout:
          for index, row in names_df.iterrows():
              tmp_row = list([str(r) for r in row])[:-1]
              tmp_row.append("")
              newrow = "\t|\t".join(tmp_row)
              print(newrow, file=fout)
      with open(f"{outdir}/nodes.dmp", 'w') as fout:
          ... the same for nodes_df ...
  \<close>
  (A row of a frame that has a string column keeps its integers as integers.)
\<close>

definition dmp_row :: "cell list \<Rightarrow> string" where
  "dmp_row row = py_join [TAB, CHR ''|'', TAB] (butlast (map py_str row) @ [[]])"


definition writeDmp :: "dataframe \<Rightarrow> dataframe \<Rightarrow> string \<Rightarrow> fs_op list" where
  "writeDmp names_df nodes_df outdir =
     OpenW (outdir @ ''/names.dmp'') #
     map (\<lambda>row. PrintLine (outdir @ ''/names.dmp'') (dmp_row row)) names_df @
     OpenW (outdir @ ''/nodes.dmp'') #
     map (\<lambda>row. PrintLine (outdir @ ''/nodes.dmp'') (dmp_row row)) nodes_df"

section \<open>The run: taxadd\_Main\<close>

text \<open>
  \<^verbatim>\<open>defaultdict(list)\<close>, in insertion order: \<^verbatim>\<open>d[k].append(v)\<close> adds the key with the
  list \<^verbatim>\<open>[v]\<close> when it is new and extends its list otherwise. The keys of the scaffold
  map are what getTaxidNames returns: a string or None.
\<close>

type_synonym 'k listdict = "('k \<times> string list) list"

definition dict_append :: "'k \<Rightarrow> string \<Rightarrow> 'k listdict \<Rightarrow> 'k listdict" where
  "dict_append k v d =
     (case map_of d k of
        None \<Rightarrow> d @ [(k, [v])]
      | Some vs \<Rightarrow> map (\<lambda>(k', vs'). if k' = k then (k', vs' @ [v]) else (k', vs')) d)"

fun str_opt :: "string option \<Rightarrow> string" where
  "str_opt None = ''None''"
| "str_opt (Some s) = s"

text \<open>
  \<^verbatim>\<open>
  def writeSeq2taxid(scaffold_taxid_dict, outdir):
      with open(f"{outdir}/seqid2taxid.map", 'w') as fout:
          for taxid, scaffids in scaffold_taxid_dict.items():
              for scaffid in scaffids:
                  print(f"{scaffid}\t{taxid}", file=fout)
  \<close>
\<close>

definition writeSeq2taxid :: "string option listdict \<Rightarrow> string \<Rightarrow> fs_op list" where
  "writeSeq2taxid scaffold_taxid_dict outdir =
     OpenW (outdir @ ''/seqid2taxid.map'') #
     concat (map (\<lambda>(taxid, scaffids).
                    map (\<lambda>scaffid. PrintLine (outdir @ ''/seqid2taxid.map'')
                                     (scaffid @ [TAB] @ str_opt taxid)) scaffids)
                 scaffold_taxid_dict)"

text \<open>
  The library services the run uses, as parameters: the directories \<^verbatim>\<open>os.walk\<close> yields
  (each with its subdirectories and files), the record identifiers \<^verbatim>\<open>SeqIO.parse\<close>
  finds in a file (get\_scaffold\_ids), and the template parser of \<^verbatim>\<open>re\<close>.
\<close>

record library =
  os_walk :: "string \<Rightarrow> (string \<times> string list \<times> string list) list"
  seqio_ids :: "string \<Rightarrow> py_error + string list"
  re_escapes :: "string \<Rightarrow> py_error + (string \<Rightarrow> string)"

definition get_scaffold_ids :: "library \<Rightarrow> string \<Rightarrow> py_error + string list" where
  "get_scaffold_ids L fasta = seqio_ids L fasta"

text \<open>\<^verbatim>\<open>os.path.join(a, b)\<close>.\<close>

definition path_join :: "string \<Rightarrow> string \<Rightarrow> string" where
  "path_join a b =
     (if b \<noteq> [] \<and> hd b = CHR ''/'' then b
      else if a = [] \<or> last a = CHR ''/'' then a @ b
      else a @ ''/'' @ b)"

record run_state =
  st_scaffolds :: "string option listdict"
  st_fastas :: "string listdict"
  st_names :: dataframe
  st_nodes :: dataframe
  st_disk :: filesystem

fun foldM :: "('s \<Rightarrow> 'a \<Rightarrow> py_error + 's) \<Rightarrow> 's \<Rightarrow> 'a list \<Rightarrow> py_error + 's" where
  "foldM f s [] = Inr s"
| "foldM f s (x # xs) = (case f s x of Inl e \<Rightarrow> Inl e | Inr s' \<Rightarrow> foldM f s' xs)"

text \<open>
  The body of the inner loop of taxadd\_Main, for one file of a directory:
  \<^verbatim>\<open>
          for fasta in fastas:
              infasta = path.join(dir, fasta)
              fasta_dict[taxname].append(infasta)
              taxid, names_df, nodes_df = getTaxidNames(taxname, mother_clade, names_df, nodes_df)
              scaffold_ids = get_scaffold_ids(infasta)
              for scaffold_id in scaffold_ids:
                  scaffold_taxid_dict[taxid].append(scaffold_id)
              if taxid == None:
                  continue
              editFasta(infasta, fasta_WDir, taxid, taxname)
  \<close>
\<close>

definition process_fasta ::
  "library \<Rightarrow> string \<Rightarrow> string \<Rightarrow> string \<Rightarrow> string option \<Rightarrow> run_state \<Rightarrow> string
     \<Rightarrow> py_error + run_state" where
  "process_fasta L fasta_WDir dir taxname mother_clade st fasta =
     (let infasta = path_join dir fasta;
          fasta_dict = dict_append taxname infasta (st_fastas st)
      in case getTaxidNames taxname mother_clade (st_names st) (st_nodes st) of
           Inl e \<Rightarrow> Inl e
         | Inr (taxid, names_df, nodes_df) \<Rightarrow>
        (case get_scaffold_ids L infasta of
           Inl e \<Rightarrow> Inl e
         | Inr scaffold_ids \<Rightarrow>
        (let scaffold_taxid_dict =
               foldl (\<lambda>d scaffold_id. dict_append taxid scaffold_id d) (st_scaffolds st) scaffold_ids;
             st' = st\<lparr>st_scaffolds := scaffold_taxid_dict, st_fastas := fasta_dict,
                      st_names := names_df, st_nodes := nodes_df\<rparr>
         in case taxid of
              None \<Rightarrow> Inr st'
            | Some t \<Rightarrow>
                (case editFasta (re_escapes L) (st_disk st) infasta fasta_WDir t taxname of
                   Inl e \<Rightarrow> Inl e
                 | Inr (r, disk') \<Rightarrow> Inr (st'\<lparr>st_disk := disk'\<rparr>)))))"

text \<open>
  The body of the outer loop, for one directory of the walk:
  \<^verbatim>\<open>
      for dir, subdirs, fastas in walk(fasta_db_path):
          taxon_rank = dir.split(fasta_db_path)[-1].split("/")
          taxname = taxon_rank[-1]
          if len(taxon_rank) > 1:
              mother_clade = taxon_rank[-2]
          else:
              mother_clade = None
          for fasta in fastas: ...
  \<close>
\<close>

definition process_dir ::
  "library \<Rightarrow> string \<Rightarrow> string \<Rightarrow> run_state \<Rightarrow> string \<times> string list \<times> string list
     \<Rightarrow> py_error + run_state" where
  "process_dir L fasta_WDir fasta_db_path st entry =
     (case entry of (dir, subdirs, fastas) \<Rightarrow>
      (case py_split fasta_db_path dir of
         Inl e \<Rightarrow> Inl e
       | Inr parts \<Rightarrow>
           (let taxon_rank = split_aux ''/'' (last parts);
                taxname = last taxon_rank;
                mother_clade = (if length taxon_rank > 1
                                then Some (taxon_rank ! (length taxon_rank - 2)) else None)
            in foldM (process_fasta L fasta_WDir dir taxname mother_clade) st fastas)))"

text \<open>
  The end of taxadd\_Main, the dump-file write step:
  \<^verbatim>\<open>
      dirpath = "/".join(names_path.split("/")[:-1])
      rename(names_path, f"{dirpath}/names.dmp.old")
      rename(nodes_path, f"{dirpath}/nodes.dmp.old")
      writeDmp(names_df, nodes_df, dirpath)
      writeSeq2taxid(scaffold_taxid_dict, dirpath)
      return fasta_dict
  \<close>
\<close>

definition dirpath_of :: "string \<Rightarrow> string" where
  "dirpath_of names_path = py_join ''/'' (butlast (split_aux ''/'' names_path))"

definition write_step ::
  "string \<Rightarrow> string \<Rightarrow> dataframe \<Rightarrow> dataframe \<Rightarrow> string option listdict \<Rightarrow> fs_op list" where
  "write_step names_path nodes_path names_df nodes_df scaffold_taxid_dict =
     (let dirpath = dirpath_of names_path in
      [Rename names_path (dirpath @ ''/names.dmp.old''),
       Rename nodes_path (dirpath @ ''/nodes.dmp.old'')]
      @ writeDmp names_df nodes_df dirpath
      @ writeSeq2taxid scaffold_taxid_dict dirpath)"

definition taxadd_Main ::
  "library \<Rightarrow> filesystem \<Rightarrow> string \<Rightarrow> string \<Rightarrow> string \<Rightarrow> string
     \<Rightarrow> py_error + (string listdict \<times> filesystem)" where
  "taxadd_Main L disk fasta_WDir fasta_db_path names_path nodes_path =
     (case readDmp disk names_path of
        Inl e \<Rightarrow> Inl e
      | Inr names_df \<Rightarrow>
     (case readDmp disk nodes_path of
        Inl e \<Rightarrow> Inl e
      | Inr nodes_df \<Rightarrow>
     (case foldM (process_dir L fasta_WDir fasta_db_path)
             \<lparr>st_scaffolds = [], st_fastas = [], st_names = names_df, st_nodes = nodes_df,
              st_disk = disk\<rparr>
             (os_walk L fasta_db_path) of
        Inl e \<Rightarrow> Inl e
      | Inr st \<Rightarrow>
     (case run_ops (write_step names_path nodes_path (st_names st) (st_nodes st) (st_scaffolds st))
             (st_disk st) of
        Inl e \<Rightarrow> Inl e
      | Inr disk' \<Rightarrow> Inr (st_fastas st, disk')))))"

section \<open>The vocabulary of the claims\<close>

text \<open>Column 0 of the frame holds integers (the taxids of a names table).\<close>

definition int_taxids :: "dataframe \<Rightarrow> bool" where
  "int_taxids df = list_all (\<lambda>row. case row of IntC i # _ \<Rightarrow> True | _ \<Rightarrow> False) df"

definition sep_str :: string where
  "sep_str = [TAB, CHR ''|'', TAB]"

subsection \<open>Well-formed dump texts\<close>

text \<open>
  A line of an NCBI dump: the fields separated by tab, bar, tab and ended by tab, bar. What
  writeDmp prints has one more tab after the last bar; \<open>trail\<close> is what follows the last
  bar (nothing in a dump as distributed).
\<close>

definition dump_line :: "string \<Rightarrow> string list \<Rightarrow> string" where
  "dump_line trail fs = py_join sep_str fs @ [TAB, CHR ''|''] @ trail"

definition dump_text_of :: "string \<Rightarrow> string list list \<Rightarrow> string" where
  "dump_text_of trail rows = concat (map (\<lambda>fs. dump_line trail fs @ [NL]) rows)"

text \<open>
  A field of a well-formed dump: printable ASCII characters and tabs, without a bar.
\<close>

definition field_ok :: "string \<Rightarrow> bool" where
  "field_ok c = list_all (\<lambda>x. plain_char x \<and> x \<noteq> CHR ''|'') c"

definition int_col :: "string list list \<Rightarrow> nat \<Rightarrow> bool" where
  "int_col rows k = list_all (\<lambda>r. int_literal (r ! k) \<noteq> None) rows"

definition text_col :: "string list list \<Rightarrow> nat \<Rightarrow> bool" where
  "text_col rows k = list_all (\<lambda>r. clearly_text (r ! k)) rows"

text \<open>
  The rows of a well-formed names or nodes dump: at least one row; every row with the same
  number (two or more) of well-formed fields; the first column (the taxid) all digits and
  all integers; every column either all integers or all clearly text; and a column of the
  second kind among them.
\<close>

definition wf_dump_rows :: "string list list \<Rightarrow> bool" where
  "wf_dump_rows rows =
     (rows \<noteq> [] \<and> 2 \<le> length (hd rows) \<and>
      list_all (\<lambda>r. length r = length (hd rows) \<and> list_all field_ok r) rows \<and>
      list_all (\<lambda>r. list_all is_digit (hd r)) rows \<and>
      int_col rows 0 \<and>
      list_all (\<lambda>k. int_col rows k \<or> text_col rows k) [0..<length (hd rows)] \<and>
      list_ex (text_col rows) [0..<length (hd rows)])"




definition dump_rows_nodes :: "string list list" where
  "dump_rows_nodes = [[''1'', ''1'', ''no rank'', '''', ''8'', ''0'', ''1'', ''0'', ''0'', ''0'',
                       ''0'', ''0'', '''']]"

text \<open>
  For the proofs: the fields of a dump line as \<^verbatim>\<open>read_csv\<close> splits them (the first
  field with the tab that follows it, the others between two tabs, then what trails the
  last bar), and the rows that writeDmp prints for the frame read from a dump.
\<close>

definition raw_field :: "nat \<Rightarrow> string \<Rightarrow> string" where
  "raw_field k c = (if k = 0 then c @ [TAB] else TAB # c @ [TAB])"



subsection \<open>Copies on the disk\<close>



definition px_holds :: "'e posix \<Rightarrow> string \<Rightarrow> bool" where
  "px_holds st c = (\<exists>e i. px_ents st e = Some (File i) \<and> px_data st i = Some c)"


section \<open>Example inputs\<close>

subsection \<open>Example tables\<close>

definition names_root :: dataframe where
  "names_root = [[IntC 1, StrC ''root'', StrC '''', StrC ''scientific name'', NaN]]"

definition names_foo :: dataframe where
  "names_foo = [[IntC 1, StrC ''root'', StrC '''', StrC ''scientific name'', NaN],
                [IntC 5, StrC ''Foo'', StrC '''', StrC ''scientific name'', NaN]]"

definition nodes_foo :: dataframe where
  "nodes_foo = [[IntC 1, IntC 1, StrC ''no rank'', StrC '''', IntC 8, IntC 0, IntC 1,
                 IntC 0, IntC 0, IntC 0, IntC 0, IntC 0, StrC '''', NaN],
                [IntC 5, IntC 1, StrC ''genus'', StrC '''', IntC 0, IntC 1, IntC 11,
                 IntC 1, IntC 0, IntC 1, IntC 0, IntC 0, StrC '''', NaN]]"

definition names_homo :: dataframe where
  "names_homo = [[IntC 1, StrC ''Homo sapiens'', StrC '''', StrC ''synonym'', NaN],
                 [IntC 9606, StrC ''Homo sapiens'', StrC '''', StrC ''scientific name'', NaN]]"

subsection \<open>Example run\<close>

definition names_txt :: string where
  "names_txt = ''1'' @ sep_str @ ''root'' @ sep_str @ sep_str @ ''scientific name'' @ [TAB] @ ''|'' @ [NL]"

definition nodes_txt :: string where
  "nodes_txt = ''1'' @ sep_str @ ''1'' @ sep_str @ ''no rank'' @ sep_str @ sep_str @ ''8'' @ sep_str
     @ ''0'' @ sep_str @ ''1'' @ sep_str @ ''0'' @ sep_str @ ''0'' @ sep_str @ ''0'' @ sep_str
     @ ''0'' @ sep_str @ ''0'' @ sep_str @ [TAB] @ ''|'' @ [NL]"

definition nodes_root :: dataframe where
  "nodes_root = [[IntC 1, IntC 1, StrC ''no rank'', StrC '''', IntC 8, IntC 0, IntC 1,
                  IntC 0, IntC 0, IntC 0, IntC 0, IntC 0, StrC '''', NaN]]"

definition disk_run :: filesystem where
  "disk_run = Map.empty(''tax/names.dmp'' \<mapsto> names_txt,
                        ''tax/nodes.dmp'' \<mapsto> nodes_txt,
                        ''db/Foo_bar/x.fa'' \<mapsto> ''>s1 desc\<newline>ACGT\<newline>'')"

definition lib_run :: library where
  "lib_run = \<lparr>os_walk = (\<lambda>p. if p = ''db'' then [(''db'', [''Foo_bar''], []), (''db/Foo_bar'', [], [''x.fa''])] else []),
              seqio_ids = (\<lambda>p. if p = ''db/Foo_bar/x.fa'' then Inr [''s1''] else Inl FileNotFoundError),
              re_escapes = fail_escapes\<rparr>"




definition posix_alias :: "string posix" where
  "posix_alias = \<lparr>px_ents = Map.empty(''tax/names.dmp'' \<mapsto> File 0, ''tax/names.dmp.old'' \<mapsto> File 1),
               px_data = Map.empty(0 \<mapsto> names_txt, 1 \<mapsto> nodes_txt),
               px_next = 2, px_cur = None\<rparr>"

section \<open>Properties of the resolver\<close>

lemma filter_absent: "\<not> list_ex P xs \<Longrightarrow> filter P xs = []"
  by (induction xs) auto

lemma getTaxidNames_absent:
  assumes "has_column 1 names_df"
    and "\<not> name_present (replace_char (CHR ''_'') (CHR '' '') taxname) names_df"
  shows "getTaxidNames taxname mother_clade names_df nodes_df = Inr (None, names_df, nodes_df)"
  using assms
  by (simp add: getTaxidNames_def search_taxon_def name_present_def filter_absent)

lemma getTaxidNames_find:
  assumes "has_column 1 names_df"
  shows "getTaxidNames taxname mother_clade names_df nodes_df =
           Inr (map_option (\<lambda>row. py_str (row ! 0))
                  (find (\<lambda>row. row ! 1 = StrC (replace_char (CHR ''_'') (CHR '' '') taxname)) names_df),
                names_df, nodes_df)"
proof -
  have "(case filter P xs of [] \<Rightarrow> Inr None | r # _ \<Rightarrow> Inr (Some (f r)))
          = (Inr (map_option f (find P xs)) :: py_error + string option)"
    for P :: "cell list \<Rightarrow> bool" and xs f
    by (induction xs) auto
  then show ?thesis
    using assms by (simp add: getTaxidNames_def search_taxon_def)
qed

lemma max_from_ints:
  "list_all (\<lambda>c. case c of IntC i \<Rightarrow> True | _ \<Rightarrow> False) cs
     \<Longrightarrow> \<exists>j. max_from (IntC i) cs = Inr (IntC j)"
  by (induction cs arbitrary: i) (auto split: cell.splits)

lemma int_taxids_column:
  "int_taxids df \<Longrightarrow>
     \<exists>cs. column 0 df = Inr cs \<and> length cs = length df
          \<and> list_all (\<lambda>c. case c of IntC i \<Rightarrow> True | _ \<Rightarrow> False) cs"
  by (induction df)
     (auto simp: int_taxids_def column_def has_column_def split: list.splits cell.splits if_splits)

lemma py_max_ints:
  assumes "int_taxids df" and "df \<noteq> []"
  shows "\<exists>cs j. column 0 df = Inr cs \<and> py_max cs = Inr (IntC j)"
proof -
  obtain cs where cs: "column 0 df = Inr cs" "length cs = length df"
     "list_all (\<lambda>c. case c of IntC i \<Rightarrow> True | _ \<Rightarrow> False) cs"
    using assms(1) int_taxids_column by blast
  with assms(2) obtain c rest where cr: "cs = c # rest" by (cases cs) auto
  with cs obtain i where "c = IntC i" by (cases c) auto
  with cs cr show ?thesis using max_from_ints[of rest i] by (auto simp: py_max_def)
qed

lemma addTaxon_never_returns: "isl (addTaxon taxname m names_df nodes_df)"
  by (simp add: addTaxon_def read_local_def split: sum.splits)

subsection \<open>C1: no synthesis\<close>

text \<open>
  C1, as stated, fails: with the genus "Foo" in the names table and "Foo bar" absent,
  getTaxidNames "Foo\_bar" None returns no identifier and the two tables as they were;
  it does not return a taxid with one row appended to each table.
\<close>

theorem C1_synthesis_counterexample:
  "name_present ''Foo'' names_foo \<and> \<not> name_present ''Foo bar'' names_foo \<and>
   getTaxidNames ''Foo_bar'' None names_foo nodes_foo = Inr (None, names_foo, nodes_foo) \<and>
   \<not> (\<exists>t names' nodes'.
         getTaxidNames ''Foo_bar'' None names_foo nodes_foo = Inr (Some t, names', nodes') \<and>
         length names' = Suc (length names_foo) \<and> length nodes' = Suc (length nodes_foo))"
  by (simp add: getTaxidNames_def search_taxon_def names_foo_def has_column_def Let_def
        replace_char_def name_present_def)

text \<open>
  C1, amended: for every names table (a frame with a name column) in which the genus "Foo"
  is present and the name "Foo bar" is absent, getTaxidNames "Foo\_bar" None returns the
  identifier None and both tables unchanged: no taxid is allocated and no row is appended.
\<close>

theorem C1_absent_name_unresolved:
  assumes "has_column 1 names_df"
    and "name_present ''Foo'' names_df"
    and "\<not> name_present ''Foo bar'' names_df"
  shows "getTaxidNames ''Foo_bar'' None names_df nodes_df = Inr (None, names_df, nodes_df)"
  using assms(1,3) by (intro getTaxidNames_absent) (simp_all add: replace_char_def)

theorem C1_absent_name_unresolved_witness:
  "has_column 1 names_foo \<and> name_present ''Foo'' names_foo \<and> \<not> name_present ''Foo bar'' names_foo \<and>
   getTaxidNames ''Foo_bar'' None names_foo nodes_foo = Inr (None, names_foo, nodes_foo)"
proof -
  have h: "has_column 1 names_foo" "name_present ''Foo'' names_foo"
      "\<not> name_present ''Foo bar'' names_foo"
    by (simp_all add: names_foo_def has_column_def name_present_def)
  show ?thesis using h C1_absent_name_unresolved [OF h, of nodes_foo] by simp
qed

subsection \<open>C3: lookup by name\<close>

text \<open>
  C3, as stated, fails: the lookup does not look at the name class. In a names table whose
  first row named "Homo sapiens" is a synonym of taxid 1 and whose second is the scientific
  name of taxid 9606, getTaxidNames "Homo\_sapiens" None returns "1", although the table
  contains (9606, "Homo sapiens", "", "scientific name") and the first row with that name
  and the class "scientific name" has taxid 9606.
\<close>

theorem C3_name_class_counterexample:
  "getTaxidNames ''Homo_sapiens'' None names_homo nodes_foo = Inr (Some ''1'', names_homo, nodes_foo) \<and>
   find (\<lambda>row. row ! 1 = StrC ''Homo sapiens'' \<and> row ! 3 = StrC ''scientific name'') names_homo
     = Some [IntC 9606, StrC ''Homo sapiens'', StrC '''', StrC ''scientific name'', NaN] \<and>
   py_str (IntC 9606) = ''9606'' \<and> ''1'' \<noteq> ''9606''"
  by (simp add: getTaxidNames_def search_taxon_def names_homo_def has_column_def Let_def
        replace_char_def str_int_def str_nat.simps digit_char_def)

text \<open>
  C3, amended: for every names table (a frame with a name column) and every taxon name,
  getTaxidNames replaces the underscores of the name with spaces and returns, as a string,
  the taxid of the first row whose name field equals the normalized name, whatever its name
  class (None when there is no such row), with both tables unchanged. In particular, when
  the first row named "Homo sapiens" is (9606, "Homo sapiens", "", "scientific name"),
  getTaxidNames "Homo\_sapiens" None returns "9606".
\<close>

theorem C3_first_row_by_name:
  assumes "has_column 1 names_df"
  shows "getTaxidNames taxname mother_clade names_df nodes_df =
           Inr (map_option (\<lambda>row. py_str (row ! 0))
                  (find (\<lambda>row. row ! 1 = StrC (replace_char (CHR ''_'') (CHR '' '') taxname)) names_df),
                names_df, nodes_df)
         \<and> (names_df = pre @ [IntC 9606, StrC ''Homo sapiens'', StrC '''', StrC ''scientific name'', c] # post
              \<and> \<not> name_present ''Homo sapiens'' pre
            \<longrightarrow> getTaxidNames ''Homo_sapiens'' None names_df nodes_df = Inr (Some ''9606'', names_df, nodes_df))"
proof (intro conjI impI)
  show "getTaxidNames taxname mother_clade names_df nodes_df =
           Inr (map_option (\<lambda>row. py_str (row ! 0))
                  (find (\<lambda>row. row ! 1 = StrC (replace_char (CHR ''_'') (CHR '' '') taxname)) names_df),
                names_df, nodes_df)"
    by (rule getTaxidNames_find [OF assms])
next
  assume a: "names_df = pre @ [IntC 9606, StrC ''Homo sapiens'', StrC '''', StrC ''scientific name'', c] # post
              \<and> \<not> name_present ''Homo sapiens'' pre"
  have f: "find P (xs @ r # ys) = Some r" if "\<not> list_ex P xs" "P r"
    for P :: "cell list \<Rightarrow> bool" and xs r ys
    using that by (induction xs) auto
  have "find (\<lambda>row. row ! 1 = StrC ''Homo sapiens'') names_df
          = Some [IntC 9606, StrC ''Homo sapiens'', StrC '''', StrC ''scientific name'', c]"
    using a by (simp add: f name_present_def)
  then show "getTaxidNames ''Homo_sapiens'' None names_df nodes_df = Inr (Some ''9606'', names_df, nodes_df)"
    by (simp add: getTaxidNames_find [OF assms] replace_char_def str_int_def str_nat.simps digit_char_def)
qed

theorem C3_first_row_by_name_witness:
  "has_column 1 names_homo \<and>
   getTaxidNames ''Homo_sapiens'' None names_homo nodes_foo = Inr (Some ''1'', names_homo, nodes_foo) \<and>
   getTaxidNames ''Homo_sapiens'' None (tl names_homo) nodes_foo = Inr (Some ''9606'', tl names_homo, nodes_foo)"
proof -
  have h: "has_column 1 names_homo" and h': "has_column 1 (tl names_homo)"
    by (simp_all add: names_homo_def has_column_def)
  have "\<not> name_present ''Homo sapiens'' []" by (simp add: name_present_def)
  then show ?thesis
    using h C3_first_row_by_name [OF h, of "''Homo_sapiens''" None nodes_foo "[]" NaN "[]"]
      C3_first_row_by_name [OF h', of "''Homo_sapiens''" None nodes_foo "[]" NaN "[]"]
    by (simp add: names_homo_def replace_char_def str_int_def str_nat.simps digit_char_def)
qed

subsection \<open>C4: the unresolvable case\<close>

text \<open>
  C4: for every names table (a frame with a name column) lacking both the full name
  "Foo bar baz" and the genus "Foo", getTaxidNames "Foo\_bar\_baz" None returns the
  identifier None and both tables unchanged.
\<close>

theorem C4_unresolvable_unchanged:
  assumes "has_column 1 names_df"
    and "\<not> name_present ''Foo bar baz'' names_df"
    and "\<not> name_present ''Foo'' names_df"
  shows "getTaxidNames ''Foo_bar_baz'' None names_df nodes_df = Inr (None, names_df, nodes_df)"
  using assms(1,2) by (intro getTaxidNames_absent) (simp_all add: replace_char_def)

theorem C4_unresolvable_unchanged_witness:
  "has_column 1 names_root \<and> \<not> name_present ''Foo bar baz'' names_root \<and>
   \<not> name_present ''Foo'' names_root \<and>
   getTaxidNames ''Foo_bar_baz'' None names_root nodes_foo = Inr (None, names_root, nodes_foo)"
proof -
  have h: "has_column 1 names_root" "\<not> name_present ''Foo bar baz'' names_root"
      "\<not> name_present ''Foo'' names_root"
    by (simp_all add: names_root_def has_column_def name_present_def)
  show ?thesis using h C4_unresolvable_unchanged [OF h, of nodes_foo] by simp
qed

subsection \<open>C7: addTaxon\<close>

text \<open>
  C7 on the code: for every names table with at least one row and integer taxids, and
  every parent taxid, addTaxon raises UnboundLocalError: it allocates no taxid and returns
  no table.
\<close>

theorem C7_addTaxon_raises:
  assumes "int_taxids names_df" and "names_df \<noteq> []"
  shows "addTaxon taxname mother_clade_taxid names_df nodes_df = Inl UnboundLocalError"
  using py_max_ints [OF assms] by (auto simp: addTaxon_def read_local_def)

theorem C7_addTaxon_raises_witness:
  "int_taxids names_foo \<and> names_foo \<noteq> [] \<and>
   addTaxon ''Foo bar'' ''5'' names_foo nodes_foo = Inl UnboundLocalError"
proof -
  have h: "int_taxids names_foo" "names_foo \<noteq> []"
    by (simp_all add: names_foo_def int_taxids_def)
  show ?thesis using h C7_addTaxon_raises [OF h, of "''Foo bar''" "''5''" nodes_foo] by simp
qed

section \<open>Properties of editFasta\<close>

subsection \<open>The substitution, line by line\<close>

lemma split_lines_ne [simp]: "split_lines s \<noteq> []"
  by (induction s) (auto simp: Let_def)

lemma join_lines_Cons: "ls \<noteq> [] \<Longrightarrow> join_lines (l # ls) = l @ NL # join_lines ls"
  by (cases ls) auto

lemma join_split_lines: "join_lines (split_lines s) = s"
proof (induction s)
  case Nil
  then show ?case by simp
next
  case (Cons c cs)
  obtain l ls where r: "split_lines cs = l # ls" by (cases "split_lines cs") auto
  show ?case
  proof (cases "c = NL")
    case True
    then show ?thesis using Cons by (simp add: join_lines_Cons)
  next
    case False
    then show ?thesis using Cons r by (cases ls) (auto simp: Let_def)
  qed
qed

lemma split_lines_no_NL: "l \<in> set (split_lines s) \<Longrightarrow> NL \<notin> set l"
proof (induction s arbitrary: l)
  case Nil
  then show ?case by simp
next
  case (Cons c cs)
  obtain l' ls where r: "split_lines cs = l' # ls" by (cases "split_lines cs") auto
  then show ?case using Cons by (auto simp: Let_def split: if_splits)
qed

lemma split_join_lines:
  "ls \<noteq> [] \<Longrightarrow> list_all (\<lambda>l. NL \<notin> set l) ls \<Longrightarrow> split_lines (join_lines ls) = ls"
proof (induction ls rule: join_lines.induct)
  case 1
  then show ?case by simp
next
  case (2 l)
  then show ?case by (induction l) (auto simp: Let_def)
next
  case (3 l v va)
  have "NL \<notin> set l \<Longrightarrow> split_lines (l @ NL # r) = l # split_lines r" for r
    by (induction l) (auto simp: Let_def)
  then show ?case using 3 by simp
qed

lemma rewrite_line_Cons:
  "c \<noteq> CHR ''>'' \<Longrightarrow> rewrite_line repl (c # l) = c # rewrite_line repl l"
  by (simp add: rewrite_line_def)

lemma rewrite_line_bare [simp]: "rewrite_line repl ''>'' = ''>''"
  by (simp add: rewrite_line_def)

lemma rewrite_line_header:
  "l \<noteq> [] \<Longrightarrow> rewrite_line repl (CHR ''>'' # l) = repl (CHR ''>'' # l)"
  by (cases l) (simp_all add: rewrite_line_def)

lemma re_sub_header_line:
  assumes "NL \<notin> set l" and "r = [] \<or> hd r = NL"
  shows "re_sub_header repl (l @ r) = rewrite_line repl l @ re_sub_header repl r"
  using assms
proof (induction l)
  case Nil
  then show ?case by (cases r) (auto simp: rewrite_line_def NL_def)
next
  case (Cons c l)
  have tw: "takeWhile (\<lambda>x. x \<noteq> NL) (l @ r) = l" and dw: "dropWhile (\<lambda>x. x \<noteq> NL) (l @ r) = r"
    using Cons.prems by (cases r; auto simp: takeWhile_append dropWhile_append)+
  show ?case
  proof (cases "c = CHR ''>'' \<and> l \<noteq> []")
    case True
    then show ?thesis using tw dw by (simp add: rewrite_line_header)
  next
    case False
    then have "re_sub_header repl ((c # l) @ r) = c # re_sub_header repl (l @ r)"
      using tw by auto
    moreover have "rewrite_line repl (c # l) = c # rewrite_line repl l"
      using False by (cases "c = CHR ''>''") (auto simp: rewrite_line_Cons rewrite_line_def)
    ultimately show ?thesis using Cons by simp
  qed
qed

lemma re_sub_header_join:
  "list_all (\<lambda>l. NL \<notin> set l) ls \<Longrightarrow>
   re_sub_header repl (join_lines ls) = join_lines (map (rewrite_line repl) ls)"
proof (induction ls rule: join_lines.induct)
  case 1
  then show ?case by simp
next
  case (2 l)
  then show ?case using re_sub_header_line[of l "[]" repl] by simp
next
  case (3 l v va)
  then show ?case using re_sub_header_line[of l "NL # join_lines (v # va)" repl]
    by (simp add: NL_def)
qed

lemma re_sub_header_lines:
  "re_sub_header repl s = join_lines (map (rewrite_line repl) (split_lines s))"
proof -
  have "list_all (\<lambda>l. NL \<notin> set l) (split_lines s)"
    using split_lines_no_NL by (auto simp: list_all_iff)
  from re_sub_header_join[OF this, of repl] show ?thesis by (simp add: join_split_lines)
qed

lemma split_aux_suffix_only:
  "sep \<noteq> [] \<Longrightarrow> no_early sep b \<Longrightarrow> hd (split_aux sep (b @ sep)) = b"
proof (induction b)
  case Nil
  then show ?case by (cases sep) auto
next
  case (Cons c b)
  then show ?case by (auto simp: Let_def)
qed

lemma basename_suffix: "suffix (basename p) p"
proof -
  have "prefix (takeWhile (\<lambda>c. c \<noteq> CHR ''/'') (rev p)) (rev p)"
    by (metis prefixI takeWhile_dropWhile_id)
  then show ?thesis unfolding basename_def
    by (metis rev_rev_ident suffix_to_prefix)
qed

lemma endswith_basename: "basename p = b @ suf \<Longrightarrow> endswith p suf"
  using basename_suffix[of p] by (auto simp: endswith_def suffix_def)

lemma kraken_template_literal:
  "CHR 0x5C \<notin> set taxid \<Longrightarrow> CHR 0x5C \<notin> set taxname \<Longrightarrow>
   kraken_template P taxid taxname = Inr (\<lambda>m. m @ kraken_suffix taxid taxname)"
  by (simp add: kraken_template_def kraken_suffix_def)

lemma rewrite_line_literal:
  "rewrite_line (\<lambda>m. m @ s) l = (if has_header_text l then l @ s else l)"
  by (simp add: rewrite_line_def has_header_text_def)

lemma header_line_has_text: "hd l = CHR ''>'' \<Longrightarrow> 2 \<le> length l \<Longrightarrow> has_header_text l"
  by (cases l) (auto simp: has_header_text_def)

lemma plain_line_no_text: "CHR ''>'' \<notin> set l \<Longrightarrow> \<not> has_header_text l"
  unfolding has_header_text_def by (induction l) auto

lemma suffix_lines_no_NL:
  assumes "NL \<notin> set s"
  shows "list_all (\<lambda>l. NL \<notin> set l) (map (\<lambda>l. if has_header_text l then l @ s else l) (split_lines d))"
  using assms split_lines_no_NL by (auto simp: list_all_iff)

lemma editFasta_result:
  assumes "disk infasta = Some fasta_data" and "kraken_template P taxid taxname = Inr repl"
  shows "editFasta P disk infasta outdir taxid taxname =
           Inr (0, disk(fasta_file_name infasta outdir taxid
                        \<mapsto> join_lines (map (rewrite_line repl) (split_lines fasta_data))))"
  using assms by (simp add: editFasta_def Let_def re_sub_header_lines fasta_file_name_def)

subsection \<open>C6: the suffix on header lines\<close>

text \<open>
  C6, as stated, fails: a header line that is the single character \<^verbatim>\<open>>\<close> gets no suffix.
  With taxid "9606" and name "Homo sapiens", the text of the two lines \<^verbatim>\<open>>\<close> and
  \<^verbatim>\<open>ACGT\<close> is written back as it was read, so its first line, which begins with
  \<^verbatim>\<open>>\<close>, is not that line followed by \<^verbatim>\<open>|kraken:taxid|9606|Homo sapiens\<close>.
\<close>

theorem C6_bare_header_counterexample:
  "editFasta fail_escapes disk_bare ''in/x.fa'' ''out'' ''9606'' ''Homo sapiens''
     = Inr (0, disk_bare(''out/9606_x.fa'' \<mapsto> ''>\<newline>ACGT\<newline>'')) \<and>
   split_lines ''>\<newline>ACGT\<newline>'' = [''>'', ''ACGT'', ''''] \<and>
   hd (split_lines ''>\<newline>ACGT\<newline>'' ! 0) = CHR ''>'' \<and>
   split_lines ''>\<newline>ACGT\<newline>'' ! 0 \<noteq> ''>'' @ kraken_suffix ''9606'' ''Homo sapiens''"
  by (simp add: editFasta_def disk_bare_def endswith_def basename_def kraken_template_def NL_def
        suffix_to_prefix kraken_suffix_def)

text \<open>
  C6, amended: for every readable input text and every taxid and taxon name without a
  backslash, editFasta writes the text in which the literal suffix
  \<^verbatim>\<open>|kraken:taxid|<taxid>|<taxonName>\<close> is appended to every line that holds a \<^verbatim>\<open>>\<close>
  followed by at least one more character, and every other line is as in the input. So
  every header line with text after its \<^verbatim>\<open>>\<close> gets the suffix, and every line without a
  \<^verbatim>\<open>>\<close> is byte-identical; when the taxid and the name hold no newline, the lines of the
  output are exactly these lines. The header \<^verbatim>\<open>>seq1 description\<close> with taxid "9606" and
  name "Homo sapiens" becomes \<^verbatim>\<open>>seq1 description|kraken:taxid|9606|Homo sapiens\<close>.
\<close>

theorem C6_suffix_on_header_text:
  assumes "disk infasta = Some fasta_data"
    and "CHR 0x5C \<notin> set taxid" and "CHR 0x5C \<notin> set taxname"
  shows "editFasta P disk infasta outdir taxid taxname =
           Inr (0, disk(fasta_file_name infasta outdir taxid \<mapsto>
                  join_lines (map (\<lambda>l. if has_header_text l then l @ kraken_suffix taxid taxname else l)
                                  (split_lines fasta_data))))
       \<and> (\<forall>l. hd l = CHR ''>'' \<and> 2 \<le> length l \<longrightarrow> has_header_text l)
       \<and> (\<forall>l. CHR ''>'' \<notin> set l \<longrightarrow> \<not> has_header_text l)
       \<and> (NL \<notin> set taxid \<and> NL \<notin> set taxname \<longrightarrow>
            split_lines (join_lines (map (\<lambda>l. if has_header_text l then l @ kraken_suffix taxid taxname else l)
                                  (split_lines fasta_data)))
            = map (\<lambda>l. if has_header_text l then l @ kraken_suffix taxid taxname else l)
                  (split_lines fasta_data))"
proof (intro conjI allI impI)
  have "rewrite_line (\<lambda>m. m @ kraken_suffix taxid taxname)
          = (\<lambda>l. if has_header_text l then l @ kraken_suffix taxid taxname else l)"
    by (rule ext) (rule rewrite_line_literal)
  then show "editFasta P disk infasta outdir taxid taxname =
           Inr (0, disk(fasta_file_name infasta outdir taxid \<mapsto>
                  join_lines (map (\<lambda>l. if has_header_text l then l @ kraken_suffix taxid taxname else l)
                                  (split_lines fasta_data))))"
    using assms(1) kraken_template_literal [OF assms(2,3), of P]
      editFasta_result [where disk = disk and infasta = infasta and fasta_data = fasta_data
        and P = P and taxid = taxid and taxname = taxname and outdir = outdir
        and repl = "\<lambda>m. m @ kraken_suffix taxid taxname"]
    by simp
next
  fix l assume "hd l = CHR ''>'' \<and> 2 \<le> length l"
  then show "has_header_text l" by (simp add: header_line_has_text)
next
  fix l assume "CHR ''>'' \<notin> set l"
  then show "\<not> has_header_text l" by (rule plain_line_no_text)
next
  assume "NL \<notin> set taxid \<and> NL \<notin> set taxname"
  then have "NL \<notin> set (kraken_suffix taxid taxname)"
    by (auto simp: kraken_suffix_def NL_def)
  from suffix_lines_no_NL [OF this]
  show "split_lines (join_lines (map (\<lambda>l. if has_header_text l then l @ kraken_suffix taxid taxname else l)
                                  (split_lines fasta_data)))
            = map (\<lambda>l. if has_header_text l then l @ kraken_suffix taxid taxname else l)
                  (split_lines fasta_data)"
    by (intro split_join_lines) simp_all
qed

text \<open>C6, amended, at the header of the claim's example.\<close>

theorem C6_suffix_on_header_text_witness:
  "disk_gz ''db/Homo_sapiens/x.fa.gz'' = Some ''>seq1 description\<newline>ACGT\<newline>'' \<and>
   CHR 0x5C \<notin> set ''9606'' \<and> CHR 0x5C \<notin> set ''Homo sapiens'' \<and>
   editFasta fail_escapes disk_gz ''db/Homo_sapiens/x.fa.gz'' ''out'' ''9606'' ''Homo sapiens'' =
     Inr (0, disk_gz(''out/9606_x.fa'' \<mapsto>
            ''>seq1 description|kraken:taxid|9606|Homo sapiens\<newline>ACGT\<newline>''))"
proof -
  have h: "disk_gz ''db/Homo_sapiens/x.fa.gz'' = Some ''>seq1 description\<newline>ACGT\<newline>''"
      "CHR 0x5C \<notin> set ''9606''" "CHR 0x5C \<notin> set ''Homo sapiens''"
    by (simp_all add: disk_gz_def)
  show ?thesis
    using h C6_suffix_on_header_text [where disk = disk_gz and infasta = "''db/Homo_sapiens/x.fa.gz''"
        and fasta_data = "''>seq1 description\<newline>ACGT\<newline>''" and P = fail_escapes
        and taxid = "''9606''" and taxname = "''Homo sapiens''" and outdir = "''out''"]
    by (simp add: fasta_file_name_def endswith_def basename_def has_header_text_def kraken_suffix_def
          NL_def Let_def suffix_to_prefix)
qed

subsection \<open>C9: the return value and the name of the written file\<close>

text \<open>
  C9, as stated, fails: editFasta returns the integer 0, not the path of the file it wrote
  (here \<^verbatim>\<open>out/9606_y.fa\<close>); and for the source \<^verbatim>\<open>a.gz.b.gz\<close> the file is named
  \<^verbatim>\<open>9606_a\<close>, cut at the first \<^verbatim>\<open>.gz\<close>, not \<^verbatim>\<open>9606_a.gz.b\<close>.
\<close>

theorem C9_return_value_counterexample:
  "editFasta fail_escapes disk_gz ''db/Homo_sapiens/y.fa'' ''out'' ''9606'' ''Homo sapiens'' =
     Inr (0, disk_gz(''out/9606_y.fa'' \<mapsto> ''>seq2|kraken:taxid|9606|Homo sapiens\<newline>TTGA\<newline>''))
   \<and> editFasta fail_escapes disk_gz ''db/Homo_sapiens/a.gz.b.gz'' ''out'' ''9606'' ''Homo sapiens'' =
     Inr (0, disk_gz(''out/9606_a'' \<mapsto> ''>seq3|kraken:taxid|9606|Homo sapiens\<newline>CCCC\<newline>''))
   \<and> basename ''db/Homo_sapiens/a.gz.b.gz'' = ''a.gz.b'' @ ''.gz''
   \<and> ''out/9606_a'' \<noteq> ''out/9606_a.gz.b''"
  by (simp add: editFasta_def disk_gz_def endswith_def basename_def kraken_template_def NL_def
        suffix_to_prefix Let_def)

text \<open>
  C9, amended: for every source path that names a readable file, every destination
  directory, and every taxid and taxon name whose replacement template \<^verbatim>\<open>re\<close> accepts
  (always, when neither holds a backslash), editFasta returns 0 and writes the rewritten
  text to \<^verbatim>\<open><outdir>/<taxid>_<basename of the source>\<close> when the source path does not
  end in \<^verbatim>\<open>.gz\<close>, and to \<^verbatim>\<open><outdir>/<taxid>_<basename without its .gz suffix>\<close> when
  the basename ends in \<^verbatim>\<open>.gz\<close> and holds \<^verbatim>\<open>.gz\<close> nowhere else.
\<close>

theorem C9_returns_zero_and_names_file:
  assumes "disk infasta = Some fasta_data"
    and "kraken_template P taxid taxname = Inr repl"
  shows "(\<not> endswith infasta ''.gz'' \<longrightarrow>
            editFasta P disk infasta outdir taxid taxname =
              Inr (0, disk(outdir @ ''/'' @ taxid @ ''_'' @ basename infasta
                           \<mapsto> re_sub_header repl fasta_data)))
       \<and> (basename infasta = b @ ''.gz'' \<and> no_early ''.gz'' b \<longrightarrow>
            editFasta P disk infasta outdir taxid taxname =
              Inr (0, disk(outdir @ ''/'' @ taxid @ ''_'' @ b
                           \<mapsto> re_sub_header repl fasta_data)))"
proof (intro conjI impI)
  assume "\<not> endswith infasta ''.gz''"
  then show "editFasta P disk infasta outdir taxid taxname =
              Inr (0, disk(outdir @ ''/'' @ taxid @ ''_'' @ basename infasta
                           \<mapsto> re_sub_header repl fasta_data))"
    using assms by (simp add: editFasta_def)
next
  assume a: "basename infasta = b @ ''.gz'' \<and> no_early ''.gz'' b"
  then have "endswith infasta ''.gz''" by (blast intro: endswith_basename)
  moreover have "hd (split_aux ''.gz'' (basename infasta)) = b"
    using a split_aux_suffix_only[of "''.gz''" b] by simp
  ultimately show "editFasta P disk infasta outdir taxid taxname =
              Inr (0, disk(outdir @ ''/'' @ taxid @ ''_'' @ b
                           \<mapsto> re_sub_header repl fasta_data))"
    using assms by (simp add: editFasta_def)
qed

text \<open>C9, amended, at a plain and at a compressed source.\<close>

theorem C9_returns_zero_and_names_file_witness:
  "editFasta fail_escapes disk_gz ''db/Homo_sapiens/y.fa'' ''out'' ''9606'' ''Homo sapiens'' =
     Inr (0, disk_gz(''out/9606_y.fa'' \<mapsto> ''>seq2|kraken:taxid|9606|Homo sapiens\<newline>TTGA\<newline>''))
   \<and> editFasta fail_escapes disk_gz ''db/Homo_sapiens/x.fa.gz'' ''out'' ''9606'' ''Homo sapiens'' =
     Inr (0, disk_gz(''out/9606_x.fa'' \<mapsto> ''>seq1 description|kraken:taxid|9606|Homo sapiens\<newline>ACGT\<newline>''))"
proof -
  have t: "kraken_template fail_escapes ''9606'' ''Homo sapiens''
             = Inr (\<lambda>m. m @ ''|kraken:taxid|9606|Homo sapiens'')"
    by (simp add: kraken_template_def)
  have d1: "disk_gz ''db/Homo_sapiens/y.fa'' = Some ''>seq2\<newline>TTGA\<newline>''"
    and d2: "disk_gz ''db/Homo_sapiens/x.fa.gz'' = Some ''>seq1 description\<newline>ACGT\<newline>''"
    by (simp_all add: disk_gz_def)
  have n1: "\<not> endswith ''db/Homo_sapiens/y.fa'' ''.gz''"
    by (simp add: endswith_def suffix_to_prefix)
  have n2: "basename ''db/Homo_sapiens/x.fa.gz'' = ''x.fa'' @ ''.gz'' \<and> no_early ''.gz'' ''x.fa''"
    by (simp add: basename_def)
  show ?thesis
    using d1 d2 t n1 n2
      C9_returns_zero_and_names_file [where disk = disk_gz and infasta = "''db/Homo_sapiens/y.fa''"
        and fasta_data = "''>seq2\<newline>TTGA\<newline>''" and P = fail_escapes and taxid = "''9606''"
        and taxname = "''Homo sapiens''" and repl = "\<lambda>m. m @ ''|kraken:taxid|9606|Homo sapiens''"
        and outdir = "''out''" and b = "''x''"]
      C9_returns_zero_and_names_file [where disk = disk_gz and infasta = "''db/Homo_sapiens/x.fa.gz''"
        and fasta_data = "''>seq1 description\<newline>ACGT\<newline>''" and P = fail_escapes
        and taxid = "''9606''" and taxname = "''Homo sapiens''"
        and repl = "\<lambda>m. m @ ''|kraken:taxid|9606|Homo sapiens''"
        and outdir = "''out''" and b = "''x.fa''"]
    by (simp add: NL_def basename_def)
qed

subsection \<open>C10: a header line that is only the character >\<close>

text \<open>
  C10: for every readable input text one of whose lines (line \<open>i\<close>) is the single character
  \<^verbatim>\<open>>\<close>, and every taxid and taxon name whose template \<^verbatim>\<open>re\<close> accepts, editFasta
  writes the input rewritten line by line, and line \<open>i\<close> of what it writes is still the
  single character \<^verbatim>\<open>>\<close>: no suffix is appended to it. (When no rewritten line holds a
  newline, the rewritten lines are the lines of the output text.)
\<close>

theorem C10_bare_header_unmodified:
  assumes "disk infasta = Some fasta_data"
    and "kraken_template P taxid taxname = Inr repl"
    and "i < length (split_lines fasta_data)"
    and "split_lines fasta_data ! i = ''>''"
  shows "editFasta P disk infasta outdir taxid taxname =
           Inr (0, disk(fasta_file_name infasta outdir taxid \<mapsto>
                  join_lines (map (rewrite_line repl) (split_lines fasta_data))))
       \<and> map (rewrite_line repl) (split_lines fasta_data) ! i = ''>''
       \<and> (list_all (\<lambda>l. NL \<notin> set l) (map (rewrite_line repl) (split_lines fasta_data)) \<longrightarrow>
            split_lines (join_lines (map (rewrite_line repl) (split_lines fasta_data))) ! i = ''>'')"
proof (intro conjI impI)
  show "editFasta P disk infasta outdir taxid taxname =
           Inr (0, disk(fasta_file_name infasta outdir taxid \<mapsto>
                  join_lines (map (rewrite_line repl) (split_lines fasta_data))))"
    using assms(1,2)
      editFasta_result [where disk = disk and infasta = infasta and fasta_data = fasta_data
        and P = P and taxid = taxid and taxname = taxname and outdir = outdir and repl = repl]
    by simp
next
  show b: "map (rewrite_line repl) (split_lines fasta_data) ! i = ''>''"
    using assms(3,4) by simp
  assume "list_all (\<lambda>l. NL \<notin> set l) (map (rewrite_line repl) (split_lines fasta_data))"
  then have "split_lines (join_lines (map (rewrite_line repl) (split_lines fasta_data)))
               = map (rewrite_line repl) (split_lines fasta_data)"
    by (intro split_join_lines) simp_all
  then show "split_lines (join_lines (map (rewrite_line repl) (split_lines fasta_data))) ! i = ''>''"
    using b by simp
qed

text \<open>C10 at the text of the two lines \<^verbatim>\<open>>\<close> and \<^verbatim>\<open>ACGT\<close>.\<close>

theorem C10_bare_header_unmodified_witness:
  "disk_bare ''in/x.fa'' = Some ''>\<newline>ACGT\<newline>'' \<and>
   kraken_template fail_escapes ''9606'' ''Homo sapiens''
     = Inr (\<lambda>m. m @ ''|kraken:taxid|9606|Homo sapiens'') \<and>
   split_lines ''>\<newline>ACGT\<newline>'' ! 0 = ''>'' \<and>
   editFasta fail_escapes disk_bare ''in/x.fa'' ''out'' ''9606'' ''Homo sapiens''
     = Inr (0, disk_bare(''out/9606_x.fa'' \<mapsto> ''>\<newline>ACGT\<newline>''))"
proof -
  have h: "disk_bare ''in/x.fa'' = Some ''>\<newline>ACGT\<newline>''"
    by (simp add: disk_bare_def)
  have t: "kraken_template fail_escapes ''9606'' ''Homo sapiens''
     = Inr (\<lambda>m. m @ ''|kraken:taxid|9606|Homo sapiens'')"
    by (simp add: kraken_template_def)
  have i: "0 < length (split_lines ''>\<newline>ACGT\<newline>'')" "split_lines ''>\<newline>ACGT\<newline>'' ! 0 = ''>''"
    by (simp_all add: NL_def)
  show ?thesis
    using h t i
      C10_bare_header_unmodified [where disk = disk_bare and infasta = "''in/x.fa''"
        and fasta_data = "''>\<newline>ACGT\<newline>''" and P = fail_escapes and taxid = "''9606''"
        and taxname = "''Homo sapiens''" and repl = "\<lambda>m. m @ ''|kraken:taxid|9606|Homo sapiens''"
        and outdir = "''out''" and i = 0]
    by (simp add: fasta_file_name_def endswith_def basename_def rewrite_line_def NL_def suffix_to_prefix)
qed

section \<open>Properties of the run\<close>

lemma parse_names_txt: "parse_dmp names_txt = Inr names_root"
  by (simp add: parse_dmp_def read_csv_def names_txt_def names_root_def sep_str_def TAB_def NL_def
       blank_line_def Let_def pad_row_def raw_cell_def col_is_int_def int_literal_def cstrip_def
       is_cspace_def is_digit_def nat_of_digits_def digit_val_def strip_def is_space_def
       plain_text_def plain_char_def quoted_def col_is_text_def text_field_def clearly_text_def
       text_char_def special_def ci_eq_def unsigned_def reserved_def)

lemma parse_nodes_txt: "parse_dmp nodes_txt = Inr nodes_root"
  by (simp add: parse_dmp_def read_csv_def nodes_txt_def nodes_root_def sep_str_def TAB_def NL_def
       blank_line_def Let_def pad_row_def raw_cell_def col_is_int_def int_literal_def cstrip_def
       is_cspace_def is_digit_def nat_of_digits_def digit_val_def strip_def is_space_def
       plain_text_def plain_char_def quoted_def col_is_text_def text_field_def clearly_text_def
       text_char_def special_def ci_eq_def unsigned_def reserved_def)

text \<open>
  What the loop body does with a file whose taxon is not resolved, in general: the path
  is recorded, the tables and the disk are as before, and every scaffold id of the file
  is appended under the key None.
\<close>

lemma process_fasta_unresolved:
  assumes "getTaxidNames taxname mother_clade (st_names st) (st_nodes st) = Inr (None, names', nodes')"
    and "get_scaffold_ids L (path_join dir fasta) = Inr ids"
  shows "process_fasta L fasta_WDir dir taxname mother_clade st fasta =
           Inr (st\<lparr>st_scaffolds := foldl (\<lambda>d scaffold_id. dict_append None scaffold_id d) (st_scaffolds st) ids,
                   st_fastas := dict_append taxname (path_join dir fasta) (st_fastas st),
                   st_names := names', st_nodes := nodes'\<rparr>)"
  using assms by (simp add: process_fasta_def Let_def)

lemma walk_db:
  "foldM (process_dir lib_run ''work'' ''db'')
      \<lparr>st_scaffolds = [], st_fastas = [], st_names = names_root, st_nodes = nodes_root, st_disk = disk_run\<rparr>
      (os_walk lib_run ''db'')
   = Inr \<lparr>st_scaffolds = [(None, [''s1''])], st_fastas = [(''Foo_bar'', [''db/Foo_bar/x.fa''])],
          st_names = names_root, st_nodes = nodes_root, st_disk = disk_run\<rparr>"
  by (simp add: lib_run_def process_dir_def py_split_def Let_def process_fasta_def path_join_def
        dict_append_def getTaxidNames_def search_taxon_def has_column_def names_root_def
        replace_char_def get_scaffold_ids_def)

lemma write_step_run:
  "write_step ''tax/names.dmp'' ''tax/nodes.dmp'' names_root nodes_root [(None, [''s1''])] =
     [Rename ''tax/names.dmp'' ''tax/names.dmp.old'',
      Rename ''tax/nodes.dmp'' ''tax/nodes.dmp.old'',
      OpenW ''tax/names.dmp'',
      PrintLine ''tax/names.dmp'' (dmp_row (hd names_root)),
      OpenW ''tax/nodes.dmp'',
      PrintLine ''tax/nodes.dmp'' (dmp_row (hd nodes_root)),
      OpenW ''tax/seqid2taxid.map'',
      PrintLine ''tax/seqid2taxid.map'' (''s1'' @ [TAB] @ ''None'')]"
  by (simp add: write_step_def dirpath_of_def Let_def writeDmp_def writeSeq2taxid_def
        names_root_def nodes_root_def)

subsection \<open>C2: a file whose taxon is not resolved\<close>

text \<open>
  C2 on the code. A run over one directory \<^verbatim>\<open>db/Foo_bar\<close> with one FASTA file whose record
  is \<^verbatim>\<open>s1\<close>, against a names table that holds only the root: the taxon is not resolved, the
  path of the file is recorded under \<^verbatim>\<open>Foo_bar\<close>, no rewritten FASTA is produced and the
  run goes on to its end; but the scaffold id is recorded under the key None, and the
  written \<^verbatim>\<open>seqid2taxid.map\<close> holds the line \<^verbatim>\<open>s1<TAB>None\<close>.
\<close>

theorem C2_unresolved_scaffolds_written:
  "\<exists>disk'. taxadd_Main lib_run disk_run ''work'' ''db'' ''tax/names.dmp'' ''tax/nodes.dmp''
            = Inr ([(''Foo_bar'', [''db/Foo_bar/x.fa''])], disk')
        \<and> disk' ''tax/seqid2taxid.map'' = Some (''s1'' @ [TAB] @ ''None'' @ [NL])
        \<and> disk' ''tax/names.dmp.old'' = Some names_txt
        \<and> disk' ''work/None_x.fa'' = None
        \<and> dom disk' = {''tax/names.dmp'', ''tax/nodes.dmp'', ''tax/names.dmp.old'',
                        ''tax/nodes.dmp.old'', ''tax/seqid2taxid.map'', ''db/Foo_bar/x.fa''}"
proof -
  have n: "readDmp disk_run ''tax/names.dmp'' = Inr names_root"
    and m: "readDmp disk_run ''tax/nodes.dmp'' = Inr nodes_root"
    by (simp_all add: readDmp_def disk_run_def parse_names_txt parse_nodes_txt)
  show ?thesis
    unfolding taxadd_Main_def n m
    by (simp add: walk_db write_step_run) (auto simp: disk_run_def)
qed

lemma write_step_shape:
  "write_step names_path nodes_path names_df nodes_df sd =
     Rename names_path (dirpath_of names_path @ ''/names.dmp.old'') #
     Rename nodes_path (dirpath_of names_path @ ''/nodes.dmp.old'') #
     (writeDmp names_df nodes_df (dirpath_of names_path) @ writeSeq2taxid sd (dirpath_of names_path))"
  by (simp add: write_step_def Let_def)



subsection \<open>C8: the old dump files\<close>



text \<open>
  The same happens when the nodes dump is given by another spelling of that path: with
  \<^verbatim>\<open>tax/./names.dmp.old\<close> for the nodes dump, the two path strings differ and the two
  entries are the same.
\<close>

lemma C8_second_spelling:
  "''tax/./names.dmp.old'' \<noteq> dirpath_of ''tax/names.dmp'' @ ''/names.dmp.old'' \<and>
   \<not> px_holds (px_trace (\<lambda>p. if p = ''tax/./names.dmp.old'' then ''tax/names.dmp.old'' else p)
                 (write_step ''tax/names.dmp'' ''tax/./names.dmp.old'' names_root nodes_root [])
                 posix_alias ! 1) nodes_txt"
proof -
  have t: "px_trace (\<lambda>p. if p = ''tax/./names.dmp.old'' then ''tax/names.dmp.old'' else p)
             (write_step ''tax/names.dmp'' ''tax/./names.dmp.old'' names_root nodes_root [])
             posix_alias ! 1
           = posix_alias\<lparr>px_ents := Map.empty(''tax/names.dmp.old'' \<mapsto> File 0)\<rparr>"
    by (simp add: write_step_shape dirpath_of_def posix_alias_def fun_eq_iff)
  have "names_txt \<noteq> nodes_txt"
    by (simp add: names_txt_def nodes_txt_def sep_str_def)
  then have "\<not> px_holds (posix_alias\<lparr>px_ents := Map.empty(''tax/names.dmp.old'' \<mapsto> File 0)\<rparr>) nodes_txt"
    by (auto simp: px_holds_def posix_alias_def split: if_splits)
  then show ?thesis
    unfolding t by (simp add: dirpath_of_def)
qed


section \<open>C5: reading a dump, writing it, reading it again\<close>

subsection \<open>Stripping\<close>


























lemma is_space_TAB [simp]: "is_space TAB" and is_cspace_TAB [simp]: "is_cspace TAB"
  by (simp_all add: is_space_def is_cspace_def TAB_def)




lemma raw_field_ne [simp]: "raw_field k c \<noteq> []"
  by (simp add: raw_field_def)

















subsection \<open>Text fields\<close>








subsection \<open>The text of a dump, line by line\<close>

lemma plain_char_sep [simp]: "plain_char TAB" "plain_char CHR ''|''" "\<not> plain_char NL"
  by (simp_all add: plain_char_def TAB_def NL_def)











subsection \<open>Well-formed dumps\<close>


















subsection \<open>The dumps of the example run\<close>


lemma nodes_txt_rows: "nodes_txt = dump_text_of [] dump_rows_nodes"
  by (simp add: nodes_txt_def dump_text_of_def dump_rows_nodes_def dump_line_def)

lemma int_literal_digit_examples:
  "int_literal ''1'' = Some 1" "int_literal ''8'' = Some 8" "int_literal ''0'' = Some 0"
  by (simp_all add: int_literal_def cstrip_def is_cspace_def is_digit_def nat_of_digits_def
        digit_val_def Let_def)

lemma clearly_text_examples:
  "clearly_text ''root''" "clearly_text ''''" "clearly_text ''scientific name''"
  "clearly_text ''no rank''"
  by (simp_all add: clearly_text_def text_char_def is_space_def strip_def special_def ci_eq_def
        unsigned_def)


lemma wf_dump_rows_nodes: "wf_dump_rows dump_rows_nodes"
  by (simp add: wf_dump_rows_def dump_rows_nodes_def field_ok_def plain_char_def TAB_def
        is_digit_def int_col_def text_col_def int_literal_digit_examples clearly_text_examples
        upt_rec [of 0] upt_conv_Cons)

subsection \<open>C5: the round trip\<close>




end
